theory Spec2Isabelle
  imports Complex_Main
begin

section \<open>Data model of the JSON-backed ledger (main.go)\<close>

text \<open>
  \<^verbatim>\<open>time.Time\<close> is an instant counted in clock ticks; its zero value is \<open>0\<close>.
  \<^verbatim>\<open>float64\<close> amounts are modelled by exact reals here: rounding, infinities and
  NaN are outside this part of the model. The properties that depend on them are
  proved of the cash operations over binary64 numbers, defined further down.
\<close>

type_synonym time = nat

record Transaction =
  Time :: time
  Counterparty :: string
  Amount :: real
  ClosingBalance :: real
  Message :: string
  Type :: string

record Account =
  FullName :: string
  Username :: string
  Password :: string
  Balance :: real
  LastLogin :: time
  Transactions :: "Transaction list"

text \<open>
  The global \<^verbatim>\<open>bank\<close> is a \<^verbatim>\<open>map[string]*Account\<close> and \<^verbatim>\<open>currentAccount\<close> a
  \<^verbatim>\<open>*Account\<close>: both hold pointers, so the accounts live in an explicit store.
  An address is an index into \<open>heap\<close>; allocation appends; \<open>None\<close> is the nil pointer.
\<close>

type_synonym addr = nat

record state =
  heap :: "Account list"
  bank :: "string \<rightharpoonup> addr"
  currentAccount :: "addr option"
  previousLastLogin :: time

text \<open>
  Standard input is the list of complete lines still to be read, each as
  \<^verbatim>\<open>strings.TrimSpace\<close> returns it. A function that reads returns \<open>None\<close> when the
  input is exhausted before it can return: the Go loops then spin forever on the
  end-of-file error.
\<close>

type_synonym stdin = "string list"

text \<open>What a command reports: normal completion, a panic, or one of the error messages.\<close>

datatype outcome =
  Done
  | NilDereference
  | UserNotFound
  | ExceededAttempts
  | AccountTaken
  | ReceiverNotFound
  | AmountNotPositive
  | InsufficientFunds

section \<open>Input helpers\<close>

fun readString :: "stdin \<Rightarrow> (string \<times> stdin) option" where
  "readString [] = None"
| "readString (input # rest) = (if input = [] then readString rest else Some (input, rest))"

lemma readString_shorter:
  "readString inp = Some (l, rest) \<Longrightarrow> length rest < length inp"
  by (induction inp) (auto split: if_splits)

text \<open>\<^verbatim>\<open>strconv.ParseFloat\<close> is a parameter: \<open>None\<close> is its error.\<close>

function readAmount :: "(string \<Rightarrow> real option) \<Rightarrow> stdin \<Rightarrow> (real \<times> stdin) option" where
  "readAmount ParseFloat inp =
     (case readString inp of
        None \<Rightarrow> None
      | Some (input, rest) \<Rightarrow>
          (case ParseFloat input of
             None \<Rightarrow> readAmount ParseFloat rest
           | Some amount \<Rightarrow>
               if amount \<le> 0 then readAmount ParseFloat rest else Some (amount, rest)))"
  by pat_completeness auto
termination
  by (relation "measure (\<lambda>(p, inp). length inp)") (auto simp: readString_shorter)

declare readAmount.simps [simp del]

section \<open>Cash operations\<close>

definition depositCash ::
  "(string \<Rightarrow> real option) \<Rightarrow> time \<Rightarrow> stdin \<Rightarrow> state \<Rightarrow> (outcome \<times> state \<times> stdin) option" where
  "depositCash ParseFloat now inp s =
     (case readAmount ParseFloat inp of
        None \<Rightarrow> None
      | Some (amount, rest) \<Rightarrow>
          (case currentAccount s of
             None \<Rightarrow> Some (NilDereference, s, rest)
           | Some p \<Rightarrow>
               let a = heap s ! p;
                   a1 = a\<lparr>Balance := Balance a + amount\<rparr>;
                   a2 = a1\<lparr>Transactions :=
                          \<lparr>Time = now, Counterparty = [], Amount = amount,
                           ClosingBalance = Balance a1,
                           Message = ''credited via cash deposit'', Type = ''C''\<rparr>
                          # Transactions a1\<rparr>
               in Some (Done, s\<lparr>heap := (heap s)[p := a2]\<rparr>, rest)))"

definition withdrawCash ::
  "(string \<Rightarrow> real option) \<Rightarrow> time \<Rightarrow> stdin \<Rightarrow> state \<Rightarrow> (outcome \<times> state \<times> stdin) option" where
  "withdrawCash ParseFloat now inp s =
     (case readAmount ParseFloat inp of
        None \<Rightarrow> None
      | Some (amount, rest) \<Rightarrow>
          (case currentAccount s of
             None \<Rightarrow> Some (NilDereference, s, rest)
           | Some p \<Rightarrow>
               let a = heap s ! p;
                   a1 = a\<lparr>Balance := Balance a - amount\<rparr>;
                   a2 = a1\<lparr>Transactions :=
                          \<lparr>Time = now, Counterparty = [], Amount = amount,
                           ClosingBalance = Balance a1,
                           Message = ''debited via cash withdrawal'', Type = ''D''\<rparr>
                          # Transactions a1\<rparr>
               in Some (Done, s\<lparr>heap := (heap s)[p := a2]\<rparr>, rest)))"

section \<open>Login and account creation\<close>

text \<open>
  \<^verbatim>\<open>hash\<close> (SHA-256, then URL-safe base64) is a parameter. The loop of \<^verbatim>\<open>login\<close>:
  the result tells whether the loop left by \<^verbatim>\<open>break\<close>, and gives the final
  \<^verbatim>\<open>incorrectPasswordCount\<close>, the number of ``Incorrect Password'' lines printed.
\<close>

function checkPassword ::
  "(string \<Rightarrow> string) \<Rightarrow> string \<Rightarrow> nat \<Rightarrow> stdin \<Rightarrow> (bool \<times> nat \<times> stdin) option" where
  "checkPassword hash stored incorrectPasswordCount inp =
     (case readString inp of
        None \<Rightarrow> None
      | Some (password, rest) \<Rightarrow>
          if hash password \<noteq> stored then
            if incorrectPasswordCount < 3
            then checkPassword hash stored (incorrectPasswordCount + 1) rest
            else Some (False, incorrectPasswordCount, rest)
          else Some (True, incorrectPasswordCount, rest))"
  by pat_completeness auto
termination
  by (relation "measure (\<lambda>(h, st, c, inp). length inp)") (auto simp: readString_shorter)

declare checkPassword.simps [simp del]

definition login ::
  "(string \<Rightarrow> string) \<Rightarrow> time \<Rightarrow> stdin \<Rightarrow> state \<Rightarrow> (outcome \<times> state \<times> stdin) option" where
  "login hash now inp s =
     (case readString inp of
        None \<Rightarrow> None
      | Some (username, rest) \<Rightarrow>
          (case bank s username of
             None \<Rightarrow> Some (UserNotFound, s, rest)
           | Some p \<Rightarrow>
               (case checkPassword hash (Password (heap s ! p)) 0 rest of
                  None \<Rightarrow> None
                | Some (ok, n, rest') \<Rightarrow>
                    if \<not> ok then Some (ExceededAttempts, s, rest')
                    else
                      let account = heap s ! p
                      in Some (Done,
                           s\<lparr>heap := (heap s)[p := account\<lparr>LastLogin := now\<rparr>],
                             currentAccount := Some p,
                             previousLastLogin := LastLogin account\<rparr>,
                           rest'))))"

text \<open>The loop of \<^verbatim>\<open>createAccount\<close> that asks for the new password twice.\<close>

function newPassword :: "stdin \<Rightarrow> (string \<times> stdin) option" where
  "newPassword inp =
     (case readString inp of
        None \<Rightarrow> None
      | Some (p1, rest1) \<Rightarrow>
          (case readString rest1 of
             None \<Rightarrow> None
           | Some (p2, rest2) \<Rightarrow> if p1 = p2 then Some (p1, rest2) else newPassword rest2))"
  by pat_completeness auto
termination
proof (relation "measure length")
  fix inp x2 p1 rest1 x2a p2 rest2
  assume "readString inp = Some x2" "(p1, rest1) = x2"
    "readString rest1 = Some x2a" "(p2, rest2) = x2a"
  then have "length rest1 < length inp" "length rest2 < length rest1"
    using readString_shorter [of inp p1 rest1] readString_shorter [of rest1 p2 rest2]
    by simp_all
  then show "(rest2, inp) \<in> measure length" by simp
qed simp

declare newPassword.simps [simp del]

text \<open>
  The account is allocated when \<^verbatim>\<open>createAccount\<close> starts to fill it in and entered
  into \<^verbatim>\<open>bank\<close> at the end; nothing can see it in between, so the model appends it to the
  store at the point where it is entered.
\<close>

definition createAccount ::
  "(string \<Rightarrow> string) \<Rightarrow> stdin \<Rightarrow> state \<Rightarrow> (outcome \<times> state \<times> stdin) option" where
  "createAccount hash inp s =
     (case readString inp of
        None \<Rightarrow> None
      | Some (username, rest) \<Rightarrow>
          (case bank s username of
             Some p \<Rightarrow> Some (AccountTaken, s, rest)
           | None \<Rightarrow>
               (case readString rest of
                  None \<Rightarrow> None
                | Some (fullName, rest1) \<Rightarrow>
                    (case newPassword rest1 of
                       None \<Rightarrow> None
                     | Some (p1, rest2) \<Rightarrow>
                         let account = \<lparr>FullName = fullName, Username = username,
                                        Password = hash p1, Balance = 1000,
                                        LastLogin = 0, Transactions = []\<rparr>
                         in Some (Done,
                              s\<lparr>heap := heap s @ [account],
                                bank := (bank s)(username \<mapsto> length (heap s))\<rparr>,
                              rest2)))))"

section \<open>Transfer\<close>

text \<open>
  Every statement of \<^verbatim>\<open>transferMoney\<close> reads and writes through the two pointers
  \<^verbatim>\<open>currentAccount\<close> and \<^verbatim>\<open>receiver\<close>, which may be the same address: the four
  updates are applied to the store one after the other, each reading the store the
  previous one left.
\<close>

definition transferMoney ::
  "(string \<Rightarrow> real option) \<Rightarrow> time \<Rightarrow> stdin \<Rightarrow> state \<Rightarrow> (outcome \<times> state \<times> stdin) option" where
  "transferMoney ParseFloat currentTime inp s =
     (case readString inp of
        None \<Rightarrow> None
      | Some (r, rest) \<Rightarrow>
          (case bank s r of
             None \<Rightarrow> Some (ReceiverNotFound, s, rest)
           | Some receiver \<Rightarrow>
               (case readAmount ParseFloat rest of
                  None \<Rightarrow> None
                | Some (amount, rest') \<Rightarrow>
                    if amount < 0 then Some (AmountNotPositive, s, rest')
                    else
                      (case currentAccount s of
                         None \<Rightarrow> Some (NilDereference, s, rest')
                       | Some sender \<Rightarrow>
                           if Balance (heap s ! sender) < amount
                           then Some (InsufficientFunds, s, rest')
                           else
                             let h0 = heap s;
                                 h1 = h0[sender := (h0 ! sender)
                                        \<lparr>Balance := Balance (h0 ! sender) - amount\<rparr>];
                                 h2 = h1[receiver := (h1 ! receiver)
                                        \<lparr>Balance := Balance (h1 ! receiver) + amount\<rparr>];
                                 h3 = h2[sender := (h2 ! sender)
                                        \<lparr>Transactions :=
                                           \<lparr>Time = currentTime,
                                            Counterparty = Username (h2 ! receiver),
                                            Amount = amount,
                                            ClosingBalance = Balance (h2 ! sender),
                                            Message = ''transferred to '' @ Username (h2 ! receiver),
                                            Type = ''D''\<rparr>
                                           # Transactions (h2 ! sender)\<rparr>];
                                 h4 = h3[receiver := (h3 ! receiver)
                                        \<lparr>Transactions :=
                                           \<lparr>Time = currentTime,
                                            Counterparty = Username (h3 ! sender),
                                            Amount = amount,
                                            ClosingBalance = Balance (h3 ! receiver),
                                            Message = ''received from '' @ Username (h3 ! sender),
                                            Type = ''C''\<rparr>
                                           # Transactions (h3 ! receiver)\<rparr>]
                             in Some (Done, s\<lparr>heap := h4\<rparr>, rest')))))"

section \<open>Example data\<close>

definition parseDemo :: "string \<Rightarrow> real option" where
  "parseDemo = map_of [(''100'', 100), (''200'', 200), (''1500'', 1500), (''0'', 0), (''-5'', - 5)]"

definition hashDemo :: "string \<Rightarrow> string" where
  "hashDemo password = CHR ''#'' # password"

definition depositRecord :: "time \<Rightarrow> real \<Rightarrow> real \<Rightarrow> Transaction" where
  "depositRecord t amount closing =
     \<lparr>Time = t, Counterparty = [], Amount = amount, ClosingBalance = closing,
      Message = ''credited via cash deposit'', Type = ''C''\<rparr>"

definition alice :: "real \<Rightarrow> Transaction list \<Rightarrow> Account" where
  "alice b ts = \<lparr>FullName = ''Alice A'', Username = ''alice'', Password = ''#pw'',
                 Balance = b, LastLogin = 1, Transactions = ts\<rparr>"


definition bob :: "real \<Rightarrow> Transaction list \<Rightarrow> Account" where
  "bob b ts = \<lparr>FullName = ''Bob B'', Username = ''bob'', Password = ''#secret'',
               Balance = b, LastLogin = 0, Transactions = ts\<rparr>"

definition pairSession :: state where
  "pairSession = \<lparr>heap = [alice 1200 [depositRecord 2 200 1200], bob 1000 []],
                   bank = [''alice'' \<mapsto> 0, ''bob'' \<mapsto> 1], currentAccount = Some 0,
                   previousLastLogin = 0\<rparr>"

definition overdrawn :: state where
  "overdrawn = \<lparr>heap = [alice (- 300) [], bob 1000 []],
                 bank = [''alice'' \<mapsto> 0, ''bob'' \<mapsto> 1], currentAccount = Some 0,
                 previousLastLogin = 0\<rparr>"

definition atMenu :: state where
  "atMenu = \<lparr>heap = [alice 1200 [depositRecord 2 200 1200], bob 1000 []],
              bank = [''alice'' \<mapsto> 0, ''bob'' \<mapsto> 1], currentAccount = None,
              previousLastLogin = 0\<rparr>"

definition emptyStore :: state where
  "emptyStore = \<lparr>heap = [], bank = Map.empty, currentAccount = None, previousLastLogin = 0\<rparr>"

section \<open>The balance invariant\<close>

text \<open>The invariant in the specification's words: closing balance of the first record, or 0.\<close>

definition claimedBalanceInv :: "Account \<Rightarrow> bool" where
  "claimedBalanceInv a =
     (Balance a = (case Transactions a of [] \<Rightarrow> 0 | t # ts \<Rightarrow> ClosingBalance t))"

text \<open>What the code keeps: an account with no record yet holds the joining bonus.\<close>

definition balanceInv :: "Account \<Rightarrow> bool" where
  "balanceInv a =
     (Balance a = (case Transactions a of [] \<Rightarrow> 1000 | t # ts \<Rightarrow> ClosingBalance t))"

text \<open>Every entry of \<^verbatim>\<open>bank\<close> points into the store, at an account that satisfies it.\<close>

definition storeInv :: "state \<Rightarrow> bool" where
  "storeInv s = (\<forall>u p. bank s u = Some p \<longrightarrow> p < length (heap s) \<and> balanceInv (heap s ! p))"

section \<open>The two records of a transfer\<close>





section \<open>IEEE 754 binary64 arithmetic\<close>

text \<open>
  A \<^verbatim>\<open>float64\<close> is a finite value, an infinity or NaN. The finite values are
  rationals (every binary64 number is one); the two zeros are one value, since they
  compare equal and add alike. An operation on finite values is the exact operation on
  the rationals followed by \<open>round64\<close>, rounding to the nearest binary64 number, ties
  to the even significand, with gradual underflow and overflow to infinity.
\<close>

datatype float64 = Finite rat | PosInf | NegInf | NaN

definition pow2 :: "int \<Rightarrow> rat" where
  "pow2 k = (if 0 \<le> k then 2 ^ nat k else 1 / 2 ^ nat (- k))"

text \<open>The number of binary digits of a positive integer, 0 for the others.\<close>

function bitLength :: "int \<Rightarrow> int" where
  "bitLength n = (if n \<le> 0 then 0 else bitLength (n div 2) + 1)"
  by pat_completeness auto
termination
  by (relation "measure nat") auto

declare bitLength.simps [simp del]

text \<open>For \<open>x > 0\<close>, the exponent \<open>e\<close> with \<open>2\<^sup>e \<le> x < 2\<^sup>e\<^sup>+\<^sup>1\<close>.\<close>

definition floorLog2 :: "rat \<Rightarrow> int" where
  "floorLog2 x =
     (let (n, d) = quotient_of x; k = bitLength n - bitLength d
      in if pow2 k \<le> x then k else k - 1)"

definition roundHalfEven :: "rat \<Rightarrow> int" where
  "roundHalfEven x =
     (let f = \<lfloor>x\<rfloor>; r = x - of_int f
      in if r < 1 / 2 then f else if 1 / 2 < r then f + 1 else if even f then f else f + 1)"

text \<open>
  The significand has 53 bits, so a magnitude with exponent \<open>e\<close> is rounded to a multiple
  of \<open>2\<^sup>e\<^sup>-\<^sup>5\<^sup>2\<close>, and to a multiple of \<open>2\<^sup>-\<^sup>1\<^sup>0\<^sup>7\<^sup>4\<close> in the subnormal range; a rounded
  magnitude of \<open>2\<^sup>1\<^sup>0\<^sup>2\<^sup>4\<close> or more is an infinity.
\<close>

definition round64 :: "rat \<Rightarrow> float64" where
  "round64 x =
     (if x = 0 then Finite 0
      else
        let a = \<bar>x\<bar>;
            q = max (floorLog2 a - 52) (- 1074);
            r = of_int (roundHalfEven (a / pow2 q)) * pow2 q
        in if 1024 \<le> floorLog2 r then (if 0 < x then PosInf else NegInf)
           else Finite (if 0 < x then r else - r))"

fun fadd :: "float64 \<Rightarrow> float64 \<Rightarrow> float64" where
  "fadd NaN b = NaN"
| "fadd a NaN = NaN"
| "fadd PosInf NegInf = NaN"
| "fadd NegInf PosInf = NaN"
| "fadd PosInf b = PosInf"
| "fadd a PosInf = PosInf"
| "fadd NegInf b = NegInf"
| "fadd a NegInf = NegInf"
| "fadd (Finite x) (Finite y) = round64 (x + y)"

declare fadd.simps [simp del]

fun fneg :: "float64 \<Rightarrow> float64" where
  "fneg (Finite x) = Finite (- x)"
| "fneg PosInf = NegInf"
| "fneg NegInf = PosInf"
| "fneg NaN = NaN"

definition fsub :: "float64 \<Rightarrow> float64 \<Rightarrow> float64" where
  "fsub a b = fadd a (fneg b)"

text \<open>The comparison \<^verbatim>\<open><=\<close>: false whenever an operand is NaN.\<close>

fun fle :: "float64 \<Rightarrow> float64 \<Rightarrow> bool" where
  "fle NaN b = False"
| "fle a NaN = False"
| "fle NegInf b = True"
| "fle a PosInf = True"
| "fle PosInf b = False"
| "fle a NegInf = False"
| "fle (Finite x) (Finite y) = (x \<le> y)"

section \<open>The cash operations over float64\<close>

text \<open>
  How much a deposit or a withdrawal moves a balance depends on the rounding of
  \<^verbatim>\<open>float64\<close>. For the properties that depend on it, the accounts, \<^verbatim>\<open>readAmount\<close>,
  \<^verbatim>\<open>depositCash\<close>, \<^verbatim>\<open>withdrawCash\<close>, \<^verbatim>\<open>createAccount\<close> and \<^verbatim>\<open>login\<close> are given here
  with amounts and balances of type \<open>float64\<close>; the names carry the suffix 64, and
  nothing else differs from the definitions above.
\<close>

record Transaction64 =
  Time64 :: time
  Counterparty64 :: string
  Amount64 :: float64
  ClosingBalance64 :: float64
  Message64 :: string
  Type64 :: string

record Account64 =
  FullName64 :: string
  Username64 :: string
  Password64 :: string
  Balance64 :: float64
  LastLogin64 :: time
  Transactions64 :: "Transaction64 list"

record state64 =
  heap64 :: "Account64 list"
  bank64 :: "string \<rightharpoonup> addr"
  currentAccount64 :: "addr option"
  previousLastLogin64 :: time

text \<open>
  \<^verbatim>\<open>strconv.ParseFloat\<close> may return an infinity or NaN without an error, and
  \<^verbatim>\<open>amount <= 0\<close> is false of NaN: \<^verbatim>\<open>readAmount\<close> returns every amount that is not
  \<open>\<le> 0\<close>.
\<close>

function readAmount64 :: "(string \<Rightarrow> float64 option) \<Rightarrow> stdin \<Rightarrow> (float64 \<times> stdin) option" where
  "readAmount64 ParseFloat inp =
     (case readString inp of
        None \<Rightarrow> None
      | Some (input, rest) \<Rightarrow>
          (case ParseFloat input of
             None \<Rightarrow> readAmount64 ParseFloat rest
           | Some amount \<Rightarrow>
               if fle amount (Finite 0) then readAmount64 ParseFloat rest
               else Some (amount, rest)))"
  by pat_completeness auto
termination
  by (relation "measure (\<lambda>(p, inp). length inp)") (auto simp: readString_shorter)

declare readAmount64.simps [simp del]

definition depositCash64 ::
  "(string \<Rightarrow> float64 option) \<Rightarrow> time \<Rightarrow> stdin \<Rightarrow> state64 \<Rightarrow>
   (outcome \<times> state64 \<times> stdin) option" where
  "depositCash64 ParseFloat now inp s =
     (case readAmount64 ParseFloat inp of
        None \<Rightarrow> None
      | Some (amount, rest) \<Rightarrow>
          (case currentAccount64 s of
             None \<Rightarrow> Some (NilDereference, s, rest)
           | Some p \<Rightarrow>
               let a = heap64 s ! p;
                   a1 = a\<lparr>Balance64 := fadd (Balance64 a) amount\<rparr>;
                   a2 = a1\<lparr>Transactions64 :=
                          \<lparr>Time64 = now, Counterparty64 = [], Amount64 = amount,
                           ClosingBalance64 = Balance64 a1,
                           Message64 = ''credited via cash deposit'', Type64 = ''C''\<rparr>
                          # Transactions64 a1\<rparr>
               in Some (Done, s\<lparr>heap64 := (heap64 s)[p := a2]\<rparr>, rest)))"

definition withdrawCash64 ::
  "(string \<Rightarrow> float64 option) \<Rightarrow> time \<Rightarrow> stdin \<Rightarrow> state64 \<Rightarrow>
   (outcome \<times> state64 \<times> stdin) option" where
  "withdrawCash64 ParseFloat now inp s =
     (case readAmount64 ParseFloat inp of
        None \<Rightarrow> None
      | Some (amount, rest) \<Rightarrow>
          (case currentAccount64 s of
             None \<Rightarrow> Some (NilDereference, s, rest)
           | Some p \<Rightarrow>
               let a = heap64 s ! p;
                   a1 = a\<lparr>Balance64 := fsub (Balance64 a) amount\<rparr>;
                   a2 = a1\<lparr>Transactions64 :=
                          \<lparr>Time64 = now, Counterparty64 = [], Amount64 = amount,
                           ClosingBalance64 = Balance64 a1,
                           Message64 = ''debited via cash withdrawal'', Type64 = ''D''\<rparr>
                          # Transactions64 a1\<rparr>
               in Some (Done, s\<lparr>heap64 := (heap64 s)[p := a2]\<rparr>, rest)))"

definition login64 ::
  "(string \<Rightarrow> string) \<Rightarrow> time \<Rightarrow> stdin \<Rightarrow> state64 \<Rightarrow> (outcome \<times> state64 \<times> stdin) option" where
  "login64 hash now inp s =
     (case readString inp of
        None \<Rightarrow> None
      | Some (username, rest) \<Rightarrow>
          (case bank64 s username of
             None \<Rightarrow> Some (UserNotFound, s, rest)
           | Some p \<Rightarrow>
               (case checkPassword hash (Password64 (heap64 s ! p)) 0 rest of
                  None \<Rightarrow> None
                | Some (ok, n, rest') \<Rightarrow>
                    if \<not> ok then Some (ExceededAttempts, s, rest')
                    else
                      let account = heap64 s ! p
                      in Some (Done,
                           s\<lparr>heap64 := (heap64 s)[p := account\<lparr>LastLogin64 := now\<rparr>],
                             currentAccount64 := Some p,
                             previousLastLogin64 := LastLogin64 account\<rparr>,
                           rest'))))"

definition createAccount64 ::
  "(string \<Rightarrow> string) \<Rightarrow> stdin \<Rightarrow> state64 \<Rightarrow> (outcome \<times> state64 \<times> stdin) option" where
  "createAccount64 hash inp s =
     (case readString inp of
        None \<Rightarrow> None
      | Some (username, rest) \<Rightarrow>
          (case bank64 s username of
             Some p \<Rightarrow> Some (AccountTaken, s, rest)
           | None \<Rightarrow>
               (case readString rest of
                  None \<Rightarrow> None
                | Some (fullName, rest1) \<Rightarrow>
                    (case newPassword rest1 of
                       None \<Rightarrow> None
                     | Some (p1, rest2) \<Rightarrow>
                         let account = \<lparr>FullName64 = fullName, Username64 = username,
                                        Password64 = hash p1, Balance64 = Finite 1000,
                                        LastLogin64 = 0, Transactions64 = []\<rparr>
                         in Some (Done,
                              s\<lparr>heap64 := heap64 s @ [account],
                                bank64 := (bank64 s)(username \<mapsto> length (heap64 s))\<rparr>,
                              rest2)))))"

text \<open>
  What is typed at one prompt of \<^verbatim>\<open>readAmount\<close>: any number of lines it turns down (a
  blank line, one that does not parse, an amount \<open>\<le> 0\<close>), then the line it accepts.
\<close>

definition rejectedLine :: "(string \<Rightarrow> float64 option) \<Rightarrow> string \<Rightarrow> bool" where
  "rejectedLine ParseFloat l =
     (l = [] \<or> (case ParseFloat l of None \<Rightarrow> True | Some a \<Rightarrow> fle a (Finite 0)))"

definition acceptedLine :: "(string \<Rightarrow> float64 option) \<Rightarrow> string \<Rightarrow> float64 \<Rightarrow> bool" where
  "acceptedLine ParseFloat l a = (l \<noteq> [] \<and> ParseFloat l = Some a \<and> \<not> fle a (Finite 0))"

fun entersAmount :: "(string \<Rightarrow> float64 option) \<Rightarrow> string list \<Rightarrow> float64 \<Rightarrow> bool" where
  "entersAmount ParseFloat [] a = False"
| "entersAmount ParseFloat [l] a = acceptedLine ParseFloat l a"
| "entersAmount ParseFloat (l # ls) a = (rejectedLine ParseFloat l \<and> entersAmount ParseFloat ls a)"

section \<open>Sequences of cash operations\<close>

text \<open>
  The choices ``3'' and ``4'' of the menu of \<^verbatim>\<open>accountLoop\<close>. \<open>cashOps64\<close> runs a list
  of them, each at its clock reading, one after the other on the same input, and returns
  with the final state the amount each of them read.
\<close>

datatype cashCommand = Deposit | Withdraw

fun cashOp64 ::
  "cashCommand \<Rightarrow> (string \<Rightarrow> float64 option) \<Rightarrow> time \<Rightarrow> stdin \<Rightarrow> state64 \<Rightarrow>
   (outcome \<times> state64 \<times> stdin) option" where
  "cashOp64 Deposit = depositCash64"
| "cashOp64 Withdraw = withdrawCash64"

fun cashOps64 ::
  "(string \<Rightarrow> float64 option) \<Rightarrow> (cashCommand \<times> time) list \<Rightarrow> stdin \<Rightarrow> state64 \<Rightarrow>
   ((cashCommand \<times> float64) list \<times> state64 \<times> stdin) option" where
  "cashOps64 ParseFloat [] inp s = Some ([], s, inp)"
| "cashOps64 ParseFloat ((c, now) # cs) inp s =
     (case readAmount64 ParseFloat inp of
        None \<Rightarrow> None
      | Some (amount, _) \<Rightarrow>
          (case cashOp64 c ParseFloat now inp s of
             None \<Rightarrow> None
           | Some (out, s1, rest) \<Rightarrow>
               (case cashOps64 ParseFloat cs rest s1 of
                  None \<Rightarrow> None
                | Some (applied, s2, rest2) \<Rightarrow> Some ((c, amount) # applied, s2, rest2))))"

text \<open>The amounts applied to a balance one by one, in the order of the operations.\<close>

definition runningBalance64 :: "float64 \<Rightarrow> (cashCommand \<times> float64) list \<Rightarrow> float64" where
  "runningBalance64 =
     foldl (\<lambda>b (c, a). case c of Deposit \<Rightarrow> fadd b a | Withdraw \<Rightarrow> fsub b a)"

text \<open>The sums of the amounts deposited and withdrawn, in exact arithmetic.\<close>

fun amountOf :: "cashCommand \<Rightarrow> cashCommand \<times> float64 \<Rightarrow> rat" where
  "amountOf c (c', Finite x) = (if c' = c then x else 0)"
| "amountOf c (c', a) = 0"

definition deposited :: "(cashCommand \<times> float64) list \<Rightarrow> rat" where
  "deposited applied = sum_list (map (amountOf Deposit) applied)"

definition withdrawn :: "(cashCommand \<times> float64) list \<Rightarrow> rat" where
  "withdrawn applied = sum_list (map (amountOf Withdraw) applied)"

text \<open>
  \<open>noRounding b applied\<close>: the amounts are finite and, starting from the balance \<open>b\<close>,
  every sum and difference on the way is a binary64 number as it stands.
\<close>

fun noRounding :: "rat \<Rightarrow> (cashCommand \<times> float64) list \<Rightarrow> bool" where
  "noRounding b [] = True"
| "noRounding b ((Deposit, Finite x) # xs) =
     (round64 (b + x) = Finite (b + x) \<and> noRounding (b + x) xs)"
| "noRounding b ((Withdraw, Finite x) # xs) =
     (round64 (b - x) = Finite (b - x) \<and> noRounding (b - x) xs)"
| "noRounding b ((c, a) # xs) = False"

section \<open>Example data over float64\<close>

text \<open>The binary64 numbers nearest to \<open>10\<^sup>-\<^sup>1\<^sup>4\<close>, to 0.1 and to 0.2.\<close>

definition tiny64 :: rat where
  "tiny64 = 6338253001141147 / 2 ^ 99"

definition tenth64 :: rat where
  "tenth64 = 3602879701896397 / 2 ^ 55"

definition fifth64 :: rat where
  "fifth64 = 3602879701896397 / 2 ^ 54"

definition parseDemo64 :: "string \<Rightarrow> float64 option" where
  "parseDemo64 =
     map_of [(''200'', Finite 200), (''1500'', Finite 1500),
             (''0.1'', Finite tenth64), (''0.2'', Finite fifth64),
             (''1e-14'', Finite tiny64)]"

definition alice64 :: "float64 \<Rightarrow> Transaction64 list \<Rightarrow> Account64" where
  "alice64 b ts = \<lparr>FullName64 = ''Alice A'', Username64 = ''alice'', Password64 = ''#pw'',
                   Balance64 = b, LastLogin64 = 1, Transactions64 = ts\<rparr>"

definition emptyStore64 :: state64 where
  "emptyStore64 = \<lparr>heap64 = [], bank64 = Map.empty, currentAccount64 = None,
                    previousLastLogin64 = 0\<rparr>"

definition aliceSession64 :: "float64 \<Rightarrow> Transaction64 list \<Rightarrow> state64" where
  "aliceSession64 b ts = \<lparr>heap64 = [alice64 b ts], bank64 = [''alice'' \<mapsto> 0],
                          currentAccount64 = Some 0, previousLastLogin64 = 0\<rparr>"

section \<open>Properties of the input helpers\<close>

lemma readAmount_positive:
  "readAmount ParseFloat inp = Some (amount, rest) \<Longrightarrow> 0 < amount"
proof (induction ParseFloat inp rule: readAmount.induct)
  case (1 ParseFloat inp)
  show ?case
  proof (cases "readString inp")
    case None
    with "1.prems" show ?thesis by (simp add: readAmount.simps [of ParseFloat inp])
  next
    case (Some x)
    then obtain input rest' where rs: "readString inp = Some (input, rest')"
      by (cases x) simp
    show ?thesis
    proof (cases "ParseFloat input")
      case None
      with rs "1.prems" have "readAmount ParseFloat rest' = Some (amount, rest)"
        by (simp add: readAmount.simps [of ParseFloat inp])
      with "1.IH"(1) [OF rs refl None] show ?thesis .
    next
      case (Some a)
      show ?thesis
      proof (cases "a \<le> 0")
        case True
        with rs Some "1.prems" have "readAmount ParseFloat rest' = Some (amount, rest)"
          by (simp add: readAmount.simps [of ParseFloat inp])
        with "1.IH"(2) [OF rs refl Some True] show ?thesis .
      next
        case False
        with rs Some "1.prems" show ?thesis
          by (simp add: readAmount.simps [of ParseFloat inp])
      qed
    qed
  qed
qed

section \<open>Properties of withdrawal and deposit\<close>

text \<open>
  C10. A deposit or a withdrawal changes nothing but the account \<^verbatim>\<open>currentAccount\<close>
  points to: the map of usernames, the session and every other account of the store,
  in all its fields, are as before.
\<close>

theorem cash_frame:
  assumes "depositCash ParseFloat now inp s = Some (out, s', rest) \<or>
           withdrawCash ParseFloat now inp s = Some (out, s', rest)"
  shows "bank s' = bank s \<and> currentAccount s' = currentAccount s \<and>
         previousLastLogin s' = previousLastLogin s \<and>
         length (heap s') = length (heap s) \<and>
         (\<forall>q. currentAccount s \<noteq> Some q \<longrightarrow> heap s' ! q = heap s ! q)"
  using assms
  by (auto simp: depositCash_def withdrawCash_def Let_def split: option.splits)

theorem cash_frame_witness:
  "depositCash parseDemo 3 [''200''] pairSession =
     Some (Done,
       pairSession\<lparr>heap := [alice 1400 [depositRecord 3 200 1400, depositRecord 2 200 1200],
                            bob 1000 []]\<rparr>, []) \<and>
   currentAccount pairSession \<noteq> Some 1 \<and>
   heap (pairSession\<lparr>heap := [alice 1400 [depositRecord 3 200 1400, depositRecord 2 200 1200],
                            bob 1000 []]\<rparr>) ! 1 = heap pairSession ! 1"
proof -
  have r: "readAmount parseDemo [''200''] = Some (200, [])"
    by (simp add: readAmount.simps parseDemo_def)
  have d: "depositCash parseDemo 3 [''200''] pairSession =
     Some (Done,
       pairSession\<lparr>heap := [alice 1400 [depositRecord 3 200 1400, depositRecord 2 200 1200],
                            bob 1000 []]\<rparr>, [])"
    by (simp add: depositCash_def r Let_def pairSession_def alice_def depositRecord_def)
  have c: "currentAccount pairSession \<noteq> Some 1" by (simp add: pairSession_def)
  from cash_frame [OF disjI1 [OF d]] c d show ?thesis by blast
qed

section \<open>The balance invariant is kept\<close>

lemma nth_update_any: "xs[i := x] ! j = (if i = j \<and> i < length xs then x else xs ! j)"
  by (cases "i < length xs") (auto simp: nth_list_update list_update_beyond)

lemma storeInvD:
  "storeInv s \<Longrightarrow> bank s u = Some p \<Longrightarrow> p < length (heap s) \<and> balanceInv (heap s ! p)"
  by (simp add: storeInv_def)

lemma storeInvI:
  "(\<And>u p. bank s u = Some p \<Longrightarrow> p < length (heap s) \<and> balanceInv (heap s ! p)) \<Longrightarrow> storeInv s"
  by (simp add: storeInv_def)

lemma storeInv_heap_update:
  assumes "storeInv s" and "balanceInv a"
  shows "storeInv (s\<lparr>heap := (heap s)[p := a]\<rparr>)"
proof (rule storeInvI)
  fix u q
  assume "bank (s\<lparr>heap := (heap s)[p := a]\<rparr>) u = Some q"
  then have "bank s u = Some q" by simp
  from storeInvD [OF assms(1) this] assms(2)
  show "q < length (heap (s\<lparr>heap := (heap s)[p := a]\<rparr>)) \<and>
        balanceInv (heap (s\<lparr>heap := (heap s)[p := a]\<rparr>) ! q)"
    by (auto simp: nth_update_any)
qed

lemma storeInv_deposit:
  "storeInv s \<Longrightarrow> depositCash ParseFloat now inp s = Some (out, s', rest) \<Longrightarrow> storeInv s'"
  by (auto simp: depositCash_def Let_def balanceInv_def split: option.splits
      intro!: storeInv_heap_update)

lemma storeInv_withdraw:
  "storeInv s \<Longrightarrow> withdrawCash ParseFloat now inp s = Some (out, s', rest) \<Longrightarrow> storeInv s'"
  by (auto simp: withdrawCash_def Let_def balanceInv_def split: option.splits
      intro!: storeInv_heap_update)

lemma storeInv_alloc:
  assumes "storeInv s" and "balanceInv a"
  shows "storeInv (s\<lparr>heap := heap s @ [a], bank := (bank s)(u \<mapsto> length (heap s))\<rparr>)"
proof (rule storeInvI)
  fix v q
  assume b: "bank (s\<lparr>heap := heap s @ [a], bank := (bank s)(u \<mapsto> length (heap s))\<rparr>) v = Some q"
  show "q < length (heap (s\<lparr>heap := heap s @ [a], bank := (bank s)(u \<mapsto> length (heap s))\<rparr>)) \<and>
        balanceInv (heap (s\<lparr>heap := heap s @ [a], bank := (bank s)(u \<mapsto> length (heap s))\<rparr>) ! q)"
  proof (cases "v = u")
    case True
    with b assms(2) show ?thesis by auto
  next
    case False
    with b have "bank s v = Some q" by simp
    from storeInvD [OF assms(1) this] show ?thesis by (simp add: nth_append)
  qed
qed

lemma storeInv_create:
  "storeInv s \<Longrightarrow> createAccount hash inp s = Some (out, s', rest) \<Longrightarrow> storeInv s'"
  by (auto simp: createAccount_def Let_def balanceInv_def
      split: option.splits if_splits intro!: storeInv_alloc)

lemma storeInv_login:
  "storeInv s \<Longrightarrow> login hash now inp s = Some (out, s', rest) \<Longrightarrow> storeInv s'"
  by (auto simp: login_def Let_def balanceInv_def storeInv_def nth_update_any
      split: option.splits if_splits)

lemma storeInv_transfer:
  assumes "storeInv s" and "transferMoney ParseFloat now inp s = Some (out, s', rest)"
  shows "storeInv s'"
proof (rule storeInvI)
  fix u q
  assume b: "bank s' u = Some q"
  from assms(2) have bs: "bank s' = bank s" and len: "length (heap s') = length (heap s)"
    by (auto simp: transferMoney_def Let_def split: option.splits if_splits)
  from b bs have "bank s u = Some q" by simp
  from storeInvD [OF assms(1) this] have q: "q < length (heap s)" and i: "balanceInv (heap s ! q)"
    by simp_all
  from assms(2) q i have "balanceInv (heap s' ! q)"
    by (auto simp: transferMoney_def Let_def balanceInv_def nth_update_any
        split: option.splits if_splits)
  with q len show "q < length (heap s') \<and> balanceInv (heap s' ! q)" by simp
qed

text \<open>
  C1 as claimed fails: a new account holds the joining bonus of 1000 and has no record,
  so its balance is not 0.
\<close>

theorem claimed_balance_invariant_counterexample:
  "createAccount hashDemo [''alice'', ''Alice A'', ''pw'', ''pw''] emptyStore =
     Some (Done,
       \<lparr>heap = [(alice 1000 [])\<lparr>LastLogin := 0\<rparr>], bank = [''alice'' \<mapsto> 0],
        currentAccount = None, previousLastLogin = 0\<rparr>, []) \<and>
   Transactions ((alice 1000 [])\<lparr>LastLogin := 0\<rparr>) = [] \<and>
   \<not> claimedBalanceInv ((alice 1000 [])\<lparr>LastLogin := 0\<rparr>)"
  by (simp add: createAccount_def newPassword.simps emptyStore_def alice_def hashDemo_def
      claimedBalanceInv_def)

text \<open>
  C1, amended. For every account of the store, the balance is the closing balance of
  the first record of its history, or the joining bonus of 1000 when the history is
  empty; account creation, deposit, withdrawal and transfer (and login) keep this.
\<close>

theorem balance_invariant_kept:
  assumes "storeInv s"
    and "createAccount hash inp s = Some (out, s', rest) \<or>
         depositCash ParseFloat now inp s = Some (out, s', rest) \<or>
         withdrawCash ParseFloat now inp s = Some (out, s', rest) \<or>
         transferMoney ParseFloat now inp s = Some (out, s', rest) \<or>
         login hash now inp s = Some (out, s', rest)"
  shows "storeInv s'"
  using assms(2)
  by (elim disjE)
     (erule storeInv_create [OF assms(1)] storeInv_deposit [OF assms(1)]
        storeInv_withdraw [OF assms(1)] storeInv_transfer [OF assms(1)]
        storeInv_login [OF assms(1)])+

theorem balance_invariant_kept_witness:
  "storeInv emptyStore \<and>
   createAccount hashDemo [''alice'', ''Alice A'', ''pw'', ''pw''] emptyStore =
     Some (Done,
       \<lparr>heap = [(alice 1000 [])\<lparr>LastLogin := 0\<rparr>], bank = [''alice'' \<mapsto> 0],
        currentAccount = None, previousLastLogin = 0\<rparr>, []) \<and>
   storeInv \<lparr>heap = [(alice 1000 [])\<lparr>LastLogin := 0\<rparr>], bank = [''alice'' \<mapsto> 0],
        currentAccount = None, previousLastLogin = 0\<rparr>"
proof -
  have i: "storeInv emptyStore"
    by (simp add: storeInv_def emptyStore_def)
  have c: "createAccount hashDemo [''alice'', ''Alice A'', ''pw'', ''pw''] emptyStore =
     Some (Done,
       \<lparr>heap = [(alice 1000 [])\<lparr>LastLogin := 0\<rparr>], bank = [''alice'' \<mapsto> 0],
        currentAccount = None, previousLastLogin = 0\<rparr>, [])"
    by (simp add: createAccount_def newPassword.simps emptyStore_def alice_def hashDemo_def)
  from balance_invariant_kept [OF i disjI1 [OF c]] i c show ?thesis by blast
qed

section \<open>Properties of transfers\<close>



lemma transferMoney_unknown_receiver:
  "readString inp = Some (r, rest1) \<Longrightarrow> bank s r = None \<Longrightarrow>
   transferMoney ParseFloat now inp s = Some (ReceiverNotFound, s, rest1)"
  by (simp add: transferMoney_def)

lemma transferMoney_insufficient:
  assumes "readString inp = Some (r, rest1)" and "bank s r = Some q"
    and "readAmount ParseFloat rest1 = Some (amount, rest)"
    and "currentAccount s = Some p" and "Balance (heap s ! p) < amount"
  shows "transferMoney ParseFloat now inp s = Some (InsufficientFunds, s, rest)"
  using assms readAmount_positive [OF assms(3)] by (simp add: transferMoney_def)

lemma transferMoney_failed:
  "transferMoney ParseFloat now inp s = Some (out, t, rest) \<Longrightarrow> out \<noteq> Done \<Longrightarrow> t = s"
  by (auto simp: transferMoney_def Let_def split: option.splits if_splits)

lemma readAmount_skips_nonpositive:
  "l \<noteq> [] \<Longrightarrow> ParseFloat l = Some a \<Longrightarrow> a \<le> 0 \<Longrightarrow>
   readAmount ParseFloat (l # ls) = readAmount ParseFloat ls"
  by (subst readAmount.simps) simp




text \<open>
  C3. A transfer that fails leaves the whole state as it was: whatever error
  \<^verbatim>\<open>transferMoney\<close> reports, the state it returns is the one it was given. An unknown
  receiver and a balance below the amount are such errors. An amount that is not positive
  never reaches the transfer: \<^verbatim>\<open>readAmount\<close> discards the line and asks again, so the
  transfer goes on as if the line had not been typed.
\<close>

theorem transfer_failure_changes_nothing:
  "(transferMoney ParseFloat now inp s = Some (out, t, rest) \<and> out \<noteq> Done \<longrightarrow> t = s) \<and>
   (readString inp = Some (r, rest1) \<and> bank s r = None \<longrightarrow>
      transferMoney ParseFloat now inp s = Some (ReceiverNotFound, s, rest1)) \<and>
   (readString inp = Some (r, rest1) \<and> bank s r = Some q \<and>
    readAmount ParseFloat rest1 = Some (amount, rest2) \<and>
    currentAccount s = Some p \<and> Balance (heap s ! p) < amount \<longrightarrow>
      transferMoney ParseFloat now inp s = Some (InsufficientFunds, s, rest2)) \<and>
   (r \<noteq> [] \<and> bank s r = Some q \<and> l \<noteq> [] \<and> ParseFloat l = Some a \<and> a \<le> 0 \<longrightarrow>
      transferMoney ParseFloat now (r # l # ls) s = transferMoney ParseFloat now (r # ls) s)"
proof (intro conjI impI)
  assume "transferMoney ParseFloat now inp s = Some (out, t, rest) \<and> out \<noteq> Done"
  then show "t = s" by (blast dest: transferMoney_failed)
next
  assume "readString inp = Some (r, rest1) \<and> bank s r = None"
  then show "transferMoney ParseFloat now inp s = Some (ReceiverNotFound, s, rest1)"
    by (simp add: transferMoney_unknown_receiver)
next
  assume "readString inp = Some (r, rest1) \<and> bank s r = Some q \<and>
    readAmount ParseFloat rest1 = Some (amount, rest2) \<and>
    currentAccount s = Some p \<and> Balance (heap s ! p) < amount"
  then show "transferMoney ParseFloat now inp s = Some (InsufficientFunds, s, rest2)"
    by (blast intro: transferMoney_insufficient)
next
  assume h: "r \<noteq> [] \<and> bank s r = Some q \<and> l \<noteq> [] \<and> ParseFloat l = Some a \<and> a \<le> 0"
  then have "readAmount ParseFloat (l # ls) = readAmount ParseFloat ls"
    by (simp add: readAmount_skips_nonpositive)
  with h show "transferMoney ParseFloat now (r # l # ls) s = transferMoney ParseFloat now (r # ls) s"
    by (simp add: transferMoney_def)
qed

theorem transfer_failure_changes_nothing_witness:
  "transferMoney parseDemo 4 [''bob'', ''100''] overdrawn = Some (InsufficientFunds, overdrawn, []) \<and>
   InsufficientFunds \<noteq> Done \<and>
   readString [''carol'', ''100''] = Some (''carol'', [''100'']) \<and>
   bank overdrawn ''carol'' = None \<and>
   transferMoney parseDemo 4 [''carol'', ''100''] overdrawn =
     Some (ReceiverNotFound, overdrawn, [''100'']) \<and>
   readString [''bob'', ''100''] = Some (''bob'', [''100'']) \<and>
   bank overdrawn ''bob'' = Some 1 \<and>
   readAmount parseDemo [''100''] = Some (100, []) \<and>
   currentAccount overdrawn = Some 0 \<and> Balance (heap overdrawn ! 0) < 100 \<and>
   ''bob'' \<noteq> [] \<and> ''-5'' \<noteq> [] \<and> parseDemo ''-5'' = Some (- 5) \<and> (- 5 :: real) \<le> 0 \<and>
   transferMoney parseDemo 4 [''bob'', ''-5'', ''200''] pairSession =
     transferMoney parseDemo 4 [''bob'', ''200''] pairSession"
proof -
  have r: "readAmount parseDemo [''100''] = Some (100, [])"
    by (simp add: readAmount.simps parseDemo_def)
  have h2: "readString [''carol'', ''100''] = Some (''carol'', [''100'']) \<and>
      bank overdrawn ''carol'' = None"
    by (simp add: overdrawn_def)
  have h3: "readString [''bob'', ''100''] = Some (''bob'', [''100'']) \<and>
      bank overdrawn ''bob'' = Some 1 \<and>
      readAmount parseDemo [''100''] = Some (100, []) \<and>
      currentAccount overdrawn = Some 0 \<and> Balance (heap overdrawn ! 0) < 100"
    using r by (simp add: overdrawn_def alice_def)
  have h4: "''bob'' \<noteq> [] \<and> bank pairSession ''bob'' = Some 1 \<and> ''-5'' \<noteq> [] \<and>
      parseDemo ''-5'' = Some (- 5) \<and> (- 5 :: real) \<le> 0"
    by (simp add: pairSession_def parseDemo_def)
  note t3 = transfer_failure_changes_nothing
      [of parseDemo 4 "[''bob'', ''100'']" overdrawn InsufficientFunds overdrawn "[]"
          "''bob''" "[''100'']" 1 100 "[]" 0]
  note t2 = transfer_failure_changes_nothing
      [of parseDemo 4 "[''carol'', ''100'']" overdrawn _ _ _ "''carol''" "[''100'']"]
  note t4 = transfer_failure_changes_nothing
      [of parseDemo 4 _ pairSession _ _ _ "''bob''" _ 1 _ _ _ "''-5''" "- 5" "[''200'']"]
  from t3 h3 have e3: "transferMoney parseDemo 4 [''bob'', ''100''] overdrawn =
      Some (InsufficientFunds, overdrawn, [])" by blast
  from t2 h2 have e2: "transferMoney parseDemo 4 [''carol'', ''100''] overdrawn =
      Some (ReceiverNotFound, overdrawn, [''100''])" by blast
  from t4 h4 have e4: "transferMoney parseDemo 4 [''bob'', ''-5'', ''200''] pairSession =
     transferMoney parseDemo 4 [''bob'', ''200''] pairSession" by blast
  from e2 e3 e4 h2 h3 h4 show ?thesis by simp
qed




section \<open>Properties of login\<close>

lemma checkPassword_wrong:
  "w \<noteq> [] \<Longrightarrow> hash w \<noteq> stored \<Longrightarrow> c < 3 \<Longrightarrow>
   checkPassword hash stored c (w # inp) = checkPassword hash stored (Suc c) inp"
  by (subst checkPassword.simps) simp

lemma checkPassword_exceeded:
  "w \<noteq> [] \<Longrightarrow> hash w \<noteq> stored \<Longrightarrow> \<not> c < 3 \<Longrightarrow>
   checkPassword hash stored c (w # inp) = Some (False, c, inp)"
  by (subst checkPassword.simps) simp

lemma checkPassword_right:
  "w \<noteq> [] \<Longrightarrow> hash w = stored \<Longrightarrow>
   checkPassword hash stored c (w # inp) = Some (True, c, inp)"
  by (subst checkPassword.simps) simp

lemma checkPassword_blank:
  "checkPassword hash stored c ([] # inp) = checkPassword hash stored c inp"
  by (subst checkPassword.simps, subst (2) checkPassword.simps) simp

lemma checkPassword_eof: "checkPassword hash stored c [] = None"
  by (subst checkPassword.simps) simp

text \<open>Blank lines are not attempts: the loop sees the non-empty lines only.\<close>

lemma checkPassword_attempts:
  "map_option (\<lambda>(ok, n, rest). (ok, n, filter (\<lambda>l. l \<noteq> []) rest))
     (checkPassword hash stored c inp) =
   checkPassword hash stored c (filter (\<lambda>l. l \<noteq> []) inp)"
proof (induction inp arbitrary: c)
  case Nil
  show ?case by (simp add: checkPassword_eof)
next
  case (Cons l ls)
  show ?case
  proof (cases "l = []")
    case True
    with Cons.IH [of c] show ?thesis by (simp add: checkPassword_blank)
  next
    case False
    note ne = this
    show ?thesis
    proof (cases "hash l = stored")
      case True
      with ne show ?thesis by (simp add: checkPassword_right)
    next
      case False
      with ne Cons.IH [of "Suc c"] show ?thesis
        by (cases "c < 3") (simp_all add: checkPassword_wrong checkPassword_exceeded)
    qed
  qed
qed

lemma checkPassword_tolerated:
  "\<forall>w\<in>set ws. w \<noteq> [] \<and> hash w \<noteq> stored \<Longrightarrow> c + length ws \<le> 3 \<Longrightarrow>
   checkPassword hash stored c (ws @ inp) = checkPassword hash stored (c + length ws) inp"
proof (induction ws arbitrary: c)
  case Nil
  show ?case by simp
next
  case (Cons w ws)
  from Cons.prems have "checkPassword hash stored c ((w # ws) @ inp) =
      checkPassword hash stored (Suc c) (ws @ inp)"
    by (simp add: checkPassword_wrong)
  also from Cons.prems have "\<dots> = checkPassword hash stored (Suc c + length ws) inp"
    by (intro Cons.IH) simp_all
  finally show ?case by simp
qed

lemma filter_nonempty_all:
  "filter (\<lambda>l. l \<noteq> []) inp = ws @ later \<Longrightarrow> \<forall>w\<in>set ws. w \<noteq> []"
proof -
  assume eq: "filter (\<lambda>l. l \<noteq> []) inp = ws @ later"
  have "set ws \<subseteq> set (filter (\<lambda>l. l \<noteq> []) inp)" by (simp add: eq)
  then show ?thesis by auto
qed

lemma checkPassword_accepts:
  assumes "filter (\<lambda>l. l \<noteq> []) inp = ws @ pw # later"
    and "\<forall>w\<in>set ws. hash w \<noteq> stored" and "length ws \<le> 3" and "hash pw = stored"
  shows "\<exists>rest. checkPassword hash stored 0 inp = Some (True, length ws, rest)"
proof -
  from filter_nonempty_all [OF assms(1)] have ne: "\<forall>w\<in>set ws. w \<noteq> []" .
  from filter_nonempty_all [of inp "ws @ [pw]" later] assms(1) have pne: "pw \<noteq> []" by simp
  from ne assms(2,3) have "checkPassword hash stored 0 (ws @ pw # later) =
      checkPassword hash stored (0 + length ws) (pw # later)"
    by (intro checkPassword_tolerated) simp_all
  with pne assms(4) have "checkPassword hash stored 0 (ws @ pw # later) = Some (True, length ws, later)"
    by (simp add: checkPassword_right)
  with checkPassword_attempts [of hash stored 0 inp] assms(1) show ?thesis
    by (auto simp: map_option_case split: option.splits)
qed

lemma checkPassword_rejects:
  assumes "filter (\<lambda>l. l \<noteq> []) inp = ws @ later"
    and "\<forall>w\<in>set ws. hash w \<noteq> stored" and "length ws = 4"
  shows "\<exists>rest. checkPassword hash stored 0 inp = Some (False, 3, rest)"
proof -
  from filter_nonempty_all [OF assms(1)] have ne: "\<forall>w\<in>set ws. w \<noteq> []" .
  from assms(3) obtain w1 w2 w3 w4 where ws: "ws = [w1, w2, w3, w4]"
    by (auto simp: length_Suc_conv numeral_eq_Suc)
  with ne assms(2) have "checkPassword hash stored 0 (ws @ later) = Some (False, 3, later)"
    by (simp add: checkPassword_wrong checkPassword_exceeded numeral_eq_Suc)
  with checkPassword_attempts [of hash stored 0 inp] assms(1) show ?thesis
    by (auto simp: map_option_case split: option.splits)
qed


text \<open>
  C5. Login against an existing account; the attempts are the non-empty lines typed
  after the username. Up to three wrong passwords are tolerated, each answered by
  ``Incorrect Password'' and a new prompt, and the right password after them logs in:
  the previous \<^verbatim>\<open>LastLogin\<close> is kept for display, \<^verbatim>\<open>LastLogin\<close> becomes the current
  time and the session is bound to the account. A fourth wrong password fails the login
  with the exceeded-attempts error, and nothing changes.
\<close>

theorem login_attempts:
  assumes "readString inp = Some (username, inp')" and "bank s username = Some p"
    and "filter (\<lambda>l. l \<noteq> []) inp' = ws @ later"
    and "\<forall>w\<in>set ws. hash w \<noteq> Password (heap s ! p)"
  shows "(length ws \<le> 3 \<and> later = pw # later' \<and> hash pw = Password (heap s ! p) \<longrightarrow>
            (\<exists>rest. checkPassword hash (Password (heap s ! p)) 0 inp' =
                       Some (True, length ws, rest) \<and>
                    login hash now inp s =
                      Some (Done,
                        s\<lparr>heap := (heap s)[p := (heap s ! p)\<lparr>LastLogin := now\<rparr>],
                          currentAccount := Some p,
                          previousLastLogin := LastLogin (heap s ! p)\<rparr>,
                        rest))) \<and>
         (length ws = 4 \<longrightarrow>
            (\<exists>rest. checkPassword hash (Password (heap s ! p)) 0 inp' = Some (False, 3, rest) \<and>
                    login hash now inp s = Some (ExceededAttempts, s, rest)))"
proof (intro conjI impI)
  assume h: "length ws \<le> 3 \<and> later = pw # later' \<and> hash pw = Password (heap s ! p)"
  with assms(3) have f: "filter (\<lambda>l. l \<noteq> []) inp' = ws @ pw # later'" by simp
  from checkPassword_accepts [OF f assms(4)] h
  obtain rest where c: "checkPassword hash (Password (heap s ! p)) 0 inp' =
      Some (True, length ws, rest)" by blast
  with assms(1,2) have "login hash now inp s =
      Some (Done,
        s\<lparr>heap := (heap s)[p := (heap s ! p)\<lparr>LastLogin := now\<rparr>],
          currentAccount := Some p, previousLastLogin := LastLogin (heap s ! p)\<rparr>, rest)"
    by (simp add: login_def Let_def)
  with c show "\<exists>rest. checkPassword hash (Password (heap s ! p)) 0 inp' =
                       Some (True, length ws, rest) \<and>
                    login hash now inp s =
                      Some (Done,
                        s\<lparr>heap := (heap s)[p := (heap s ! p)\<lparr>LastLogin := now\<rparr>],
                          currentAccount := Some p,
                          previousLastLogin := LastLogin (heap s ! p)\<rparr>,
                        rest)" by blast
next
  assume "length ws = 4"
  from checkPassword_rejects [OF assms(3,4) this]
  obtain rest where c: "checkPassword hash (Password (heap s ! p)) 0 inp' =
      Some (False, 3, rest)" by blast
  with assms(1,2) have "login hash now inp s = Some (ExceededAttempts, s, rest)"
    by (simp add: login_def)
  with c show "\<exists>rest. checkPassword hash (Password (heap s ! p)) 0 inp' = Some (False, 3, rest) \<and>
                    login hash now inp s = Some (ExceededAttempts, s, rest)" by blast
qed

theorem login_attempts_witness:
  "login hashDemo 9 [''alice'', ''a'', ''b'', [], ''c'', ''pw'', ''3''] atMenu =
     Some (Done,
       atMenu\<lparr>heap := [(alice 1200 [depositRecord 2 200 1200])\<lparr>LastLogin := 9\<rparr>, bob 1000 []],
              currentAccount := Some 0, previousLastLogin := 1\<rparr>, [''3'']) \<and>
   checkPassword hashDemo ''#pw'' 0 [''a'', ''b'', [], ''c'', ''pw'', ''3''] =
     Some (True, 3, [''3'']) \<and>
   login hashDemo 9 [''alice'', ''a'', ''b'', ''c'', ''d'', ''pw''] atMenu =
     Some (ExceededAttempts, atMenu, [''pw'']) \<and>
   checkPassword hashDemo ''#pw'' 0 [''a'', ''b'', ''c'', ''d'', ''pw''] =
     Some (False, 3, [''pw''])"
proof -
  have pw: "Password (heap atMenu ! 0) = ''#pw''" and b: "bank atMenu ''alice'' = Some 0"
    and hp: "heap atMenu = [alice 1200 [depositRecord 2 200 1200], bob 1000 []]"
    by (simp_all add: atMenu_def alice_def)
  have c1: "checkPassword hashDemo ''#pw'' 0 [''a'', ''b'', [], ''c'', ''pw'', ''3''] =
     Some (True, 3, [''3''])"
    by (simp add: checkPassword.simps hashDemo_def)
  have c2: "checkPassword hashDemo ''#pw'' 0 [''a'', ''b'', ''c'', ''d'', ''pw''] =
     Some (False, 3, [''pw''])"
    by (simp add: checkPassword.simps hashDemo_def)
  have w1: "\<forall>w\<in>set [''a'', ''b'', ''c'']. hashDemo w \<noteq> Password (heap atMenu ! 0)"
    and w2: "\<forall>w\<in>set [''a'', ''b'', ''c'', ''d'']. hashDemo w \<noteq> Password (heap atMenu ! 0)"
    by (simp_all add: pw hashDemo_def)
  have f1: "filter (\<lambda>l. l \<noteq> []) [''a'', ''b'', [], ''c'', ''pw'', ''3''] =
      [''a'', ''b'', ''c''] @ [''pw'', ''3'']"
    and f2: "filter (\<lambda>l. l \<noteq> []) [''a'', ''b'', ''c'', ''d'', ''pw''] =
      [''a'', ''b'', ''c'', ''d''] @ [''pw'']"
    by simp_all
  have r1: "readString [''alice'', ''a'', ''b'', [], ''c'', ''pw'', ''3''] =
      Some (''alice'', [''a'', ''b'', [], ''c'', ''pw'', ''3''])"
    and r2: "readString [''alice'', ''a'', ''b'', ''c'', ''d'', ''pw''] =
      Some (''alice'', [''a'', ''b'', ''c'', ''d'', ''pw''])"
    by simp_all
  have g1: "length [''a'', ''b'', ''c''] \<le> 3 \<and> [''pw'', ''3''] = ''pw'' # [''3''] \<and>
      hashDemo ''pw'' = Password (heap atMenu ! 0)"
    by (simp add: pw hashDemo_def)
  from login_attempts [OF r1 b f1 w1, of "''pw''" "[''3'']" 9] g1
  obtain rest where a1: "checkPassword hashDemo (Password (heap atMenu ! 0)) 0
        [''a'', ''b'', [], ''c'', ''pw'', ''3''] = Some (True, length [''a'', ''b'', ''c''], rest)"
    and b1: "login hashDemo 9 [''alice'', ''a'', ''b'', [], ''c'', ''pw'', ''3''] atMenu =
        Some (Done,
          atMenu\<lparr>heap := (heap atMenu)[0 := (heap atMenu ! 0)\<lparr>LastLogin := 9\<rparr>],
                 currentAccount := Some 0,
                 previousLastLogin := LastLogin (heap atMenu ! 0)\<rparr>, rest)"
    by blast
  from a1 c1 have "rest = [''3'']" by (simp add: pw)
  with b1 have e1: "login hashDemo 9 [''alice'', ''a'', ''b'', [], ''c'', ''pw'', ''3''] atMenu =
     Some (Done,
       atMenu\<lparr>heap := [(alice 1200 [depositRecord 2 200 1200])\<lparr>LastLogin := 9\<rparr>, bob 1000 []],
              currentAccount := Some 0, previousLastLogin := 1\<rparr>, [''3''])"
    by (simp add: hp alice_def)
  have g2: "length [''a'', ''b'', ''c'', ''d''] = 4" by simp
  from login_attempts [OF r2 b f2 w2, of _ _ 9] g2
  obtain rest' where a2: "checkPassword hashDemo (Password (heap atMenu ! 0)) 0
        [''a'', ''b'', ''c'', ''d'', ''pw''] = Some (False, 3, rest')"
    and b2: "login hashDemo 9 [''alice'', ''a'', ''b'', ''c'', ''d'', ''pw''] atMenu =
        Some (ExceededAttempts, atMenu, rest')"
    by blast
  from a2 c2 have "rest' = [''pw'']" by (simp add: pw)
  with b2 have e2: "login hashDemo 9 [''alice'', ''a'', ''b'', ''c'', ''d'', ''pw''] atMenu =
     Some (ExceededAttempts, atMenu, [''pw''])"
    by simp
  from e1 e2 c1 c2 show ?thesis by simp
qed

section \<open>Properties of account creation\<close>

lemma newPassword_match:
  "p1 \<noteq> [] \<Longrightarrow> newPassword (p1 # p1 # rest) = Some (p1, rest)"
  by (subst newPassword.simps) simp

text \<open>
  C7. The username is looked up before anything else is read: when it is taken,
  \<^verbatim>\<open>createAccount\<close> reports so and returns the state as it was, whatever follows on the
  input. When it is free, and a full name and a password typed twice alike follow, one
  account is added to the store under that username, with the balance 1000 and an empty
  history, and nothing else changes; \<^verbatim>\<open>createAccount\<close> has no other way to return.
\<close>

theorem createAccount_outcomes:
  assumes "readString inp = Some (username, rest1)"
  shows "(bank s username \<noteq> None \<longrightarrow>
            createAccount hash inp s = Some (AccountTaken, s, rest1)) \<and>
         (bank s username = None \<and> fullName \<noteq> [] \<and> p1 \<noteq> [] \<and>
          rest1 = fullName # p1 # p1 # rest \<longrightarrow>
            createAccount hash inp s =
              Some (Done,
                s\<lparr>heap := heap s @
                     [\<lparr>FullName = fullName, Username = username, Password = hash p1,
                       Balance = 1000, LastLogin = 0, Transactions = []\<rparr>],
                  bank := (bank s)(username \<mapsto> length (heap s))\<rparr>,
                rest)) \<and>
         (bank s username = None \<and> createAccount hash inp s = Some (out, t, rest') \<longrightarrow>
            out = Done \<and>
            (\<exists>name pw. t =
                s\<lparr>heap := heap s @
                     [\<lparr>FullName = name, Username = username, Password = hash pw,
                       Balance = 1000, LastLogin = 0, Transactions = []\<rparr>],
                  bank := (bank s)(username \<mapsto> length (heap s))\<rparr>))"
proof (intro conjI impI)
  assume "bank s username \<noteq> None"
  with assms show "createAccount hash inp s = Some (AccountTaken, s, rest1)"
    by (auto simp: createAccount_def)
next
  assume "bank s username = None \<and> fullName \<noteq> [] \<and> p1 \<noteq> [] \<and>
          rest1 = fullName # p1 # p1 # rest"
  with assms show "createAccount hash inp s =
              Some (Done,
                s\<lparr>heap := heap s @
                     [\<lparr>FullName = fullName, Username = username, Password = hash p1,
                       Balance = 1000, LastLogin = 0, Transactions = []\<rparr>],
                  bank := (bank s)(username \<mapsto> length (heap s))\<rparr>,
                rest)"
    by (simp add: createAccount_def newPassword_match)
next
  assume h: "bank s username = None \<and> createAccount hash inp s = Some (out, t, rest')"
  with assms show "out = Done"
    by (auto simp: createAccount_def split: option.splits)
  from h assms obtain name pw where "t =
                s\<lparr>heap := heap s @
                     [\<lparr>FullName = name, Username = username, Password = hash pw,
                       Balance = 1000, LastLogin = 0, Transactions = []\<rparr>],
                  bank := (bank s)(username \<mapsto> length (heap s))\<rparr>"
    by (auto simp: createAccount_def split: option.splits)
  then show "\<exists>name pw. t =
                s\<lparr>heap := heap s @
                     [\<lparr>FullName = name, Username = username, Password = hash pw,
                       Balance = 1000, LastLogin = 0, Transactions = []\<rparr>],
                  bank := (bank s)(username \<mapsto> length (heap s))\<rparr>"
    by blast
qed

theorem createAccount_outcomes_witness:
  "readString [''alice'', ''Someone Else'', ''x'', ''x''] =
     Some (''alice'', [''Someone Else'', ''x'', ''x'']) \<and>
   bank atMenu ''alice'' \<noteq> None \<and>
   createAccount hashDemo [''alice'', ''Someone Else'', ''x'', ''x''] atMenu =
     Some (AccountTaken, atMenu, [''Someone Else'', ''x'', ''x'']) \<and>
   readString [''carol'', ''Carol C'', ''pw'', ''pw'', ''1''] =
     Some (''carol'', [''Carol C'', ''pw'', ''pw'', ''1'']) \<and>
   bank atMenu ''carol'' = None \<and>
   createAccount hashDemo [''carol'', ''Carol C'', ''pw'', ''pw'', ''1''] atMenu =
     Some (Done,
       atMenu\<lparr>heap := heap atMenu @
                [\<lparr>FullName = ''Carol C'', Username = ''carol'', Password = ''#pw'',
                  Balance = 1000, LastLogin = 0, Transactions = []\<rparr>],
              bank := (bank atMenu)(''carol'' \<mapsto> 2)\<rparr>,
       [''1''])"
proof -
  have r1: "readString [''alice'', ''Someone Else'', ''x'', ''x''] =
      Some (''alice'', [''Someone Else'', ''x'', ''x''])"
    and r2: "readString [''carol'', ''Carol C'', ''pw'', ''pw'', ''1''] =
      Some (''carol'', [''Carol C'', ''pw'', ''pw'', ''1''])"
    by simp_all
  have b1: "bank atMenu ''alice'' \<noteq> None" and b2: "bank atMenu ''carol'' = None"
    and l: "length (heap atMenu) = 2"
    by (simp_all add: atMenu_def)
  from createAccount_outcomes [OF r1, of atMenu hashDemo] b1
  have e1: "createAccount hashDemo [''alice'', ''Someone Else'', ''x'', ''x''] atMenu =
     Some (AccountTaken, atMenu, [''Someone Else'', ''x'', ''x''])"
    by blast
  from createAccount_outcomes [OF r2, of atMenu hashDemo "''Carol C''" "''pw''" "[''1'']"] b2
  have e2: "createAccount hashDemo [''carol'', ''Carol C'', ''pw'', ''pw'', ''1''] atMenu =
     Some (Done,
       atMenu\<lparr>heap := heap atMenu @
                [\<lparr>FullName = ''Carol C'', Username = ''carol'', Password = ''#pw'',
                  Balance = 1000, LastLogin = 0, Transactions = []\<rparr>],
              bank := (bank atMenu)(''carol'' \<mapsto> 2)\<rparr>,
       [''1''])"
    by (simp add: l hashDemo_def)
  from r1 r2 b1 b2 e1 e2 show ?thesis by blast
qed

section \<open>Properties of the cash operations over float64\<close>


lemma readAmount64_valid_line:
  "l \<noteq> [] \<Longrightarrow> ParseFloat l = Some a \<Longrightarrow> \<not> fle a (Finite 0) \<Longrightarrow>
   readAmount64 ParseFloat (l # rest) = Some (a, rest)"
  by (subst readAmount64.simps) simp


lemma round64_parse_tenth: "round64 (1 / 10) = Finite tenth64"
  by code_simp

lemma round64_parse_fifth: "round64 (2 / 10) = Finite fifth64"
  by code_simp


lemma fadd_tenth: "fadd (Finite 1000) (Finite tenth64) = Finite (8796972631510221 / 2 ^ 43)"
  by code_simp

lemma fadd_tenth_fifth:
  "fadd (fadd (Finite 1000) (Finite tenth64)) (Finite fifth64) =
    Finite (8798731850114663 / 2 ^ 43)"
  by code_simp

lemma fadd_regrouped:
  "fadd (Finite 1000) (fadd (Finite tenth64) (Finite fifth64)) =
    Finite (4399365925057331 / 2 ^ 42)"
  by code_simp

lemma round64_1200: "round64 1200 = Finite 1200"
  by code_simp

lemma round64_minus_300: "round64 (- 300) = Finite (- 300)"
  by code_simp





lemma cashOp64_step:
  assumes "currentAccount64 s = Some p" and "p < length (heap64 s)"
    and "readAmount64 ParseFloat inp = Some (amount, rest)"
  shows "\<exists>s'. cashOp64 c ParseFloat now inp s = Some (Done, s', rest) \<and>
           currentAccount64 s' = Some p \<and> length (heap64 s') = length (heap64 s) \<and>
           Balance64 (heap64 s' ! p) =
             (case c of Deposit \<Rightarrow> fadd (Balance64 (heap64 s ! p)) amount
                      | Withdraw \<Rightarrow> fsub (Balance64 (heap64 s ! p)) amount)"
  using assms
  by (cases c) (simp_all add: depositCash64_def withdrawCash64_def Let_def)

lemma readAmount64_rejected_line:
  "rejectedLine ParseFloat l \<Longrightarrow>
   readAmount64 ParseFloat (l # inp) = readAmount64 ParseFloat inp"
proof (cases "l = []")
  case True
  then show ?thesis
    by (subst readAmount64.simps, subst (2) readAmount64.simps) simp
next
  case False
  assume "rejectedLine ParseFloat l"
  with False show ?thesis
    by (subst readAmount64.simps) (auto simp: rejectedLine_def split: option.splits)
qed

lemma readAmount64_enters:
  "entersAmount ParseFloat typed a \<Longrightarrow>
   readAmount64 ParseFloat (typed @ rest) = Some (a, rest)"
proof (induction ParseFloat typed a rule: entersAmount.induct)
  case (1 ParseFloat a)
  then show ?case by simp
next
  case (2 ParseFloat l a)
  then show ?case by (simp add: acceptedLine_def readAmount64_valid_line)
next
  case (3 ParseFloat l v va a)
  then show ?case by (simp add: readAmount64_rejected_line)
qed

lemma cashOps64_run:
  assumes "list_all2 (entersAmount ParseFloat) typed amounts"
  shows "length ops = length typed \<Longrightarrow> currentAccount64 s = Some p \<Longrightarrow>
         p < length (heap64 s) \<Longrightarrow>
         \<exists>s'. cashOps64 ParseFloat ops (concat typed @ rest) s =
                 Some (zip (map fst ops) amounts, s', rest) \<and>
               Balance64 (heap64 s' ! p) =
                 runningBalance64 (Balance64 (heap64 s ! p)) (zip (map fst ops) amounts)"
  using assms
proof (induction typed amounts arbitrary: ops s rule: list_all2_induct)
  case Nil
  then show ?case by (simp add: runningBalance64_def)
next
  case (Cons l ls a as)
  from Cons.prems(1) obtain c now ops' where ops: "ops = (c, now) # ops'"
    and len: "length ops' = length ls"
    by (cases ops) auto
  from Cons.hyps(1)
  have ra: "readAmount64 ParseFloat (concat (l # ls) @ rest) = Some (a, concat ls @ rest)"
    using readAmount64_enters [of ParseFloat l a "concat ls @ rest"] by simp
  from cashOp64_step [OF Cons.prems(2,3) ra, of c now]
  obtain s1 where op: "cashOp64 c ParseFloat now (concat (l # ls) @ rest) s =
        Some (Done, s1, concat ls @ rest)"
    and c1: "currentAccount64 s1 = Some p" and l1: "length (heap64 s1) = length (heap64 s)"
    and b1: "Balance64 (heap64 s1 ! p) =
             (case c of Deposit \<Rightarrow> fadd (Balance64 (heap64 s ! p)) a
                      | Withdraw \<Rightarrow> fsub (Balance64 (heap64 s ! p)) a)"
    by blast
  from l1 Cons.prems(3) have p1: "p < length (heap64 s1)" by simp
  from Cons.IH [OF len c1 p1]
  obtain s' where tl: "cashOps64 ParseFloat ops' (concat ls @ rest) s1 =
                 Some (zip (map fst ops') as, s', rest)"
    and bt: "Balance64 (heap64 s' ! p) =
                 runningBalance64 (Balance64 (heap64 s1 ! p)) (zip (map fst ops') as)"
    by blast
  from ra op tl have "cashOps64 ParseFloat ops (concat (l # ls) @ rest) s =
      Some (zip (map fst ops) (a # as), s', rest)"
    unfolding ops by (simp del: concat.simps append_assoc)
  moreover from bt b1 have "Balance64 (heap64 s' ! p) =
      runningBalance64 (Balance64 (heap64 s ! p)) (zip (map fst ops) (a # as))"
    by (cases c) (simp_all add: ops runningBalance64_def)
  ultimately show ?case by blast
qed

lemma runningBalance64_exact:
  "noRounding b applied \<Longrightarrow>
   runningBalance64 (Finite b) applied = Finite (b + deposited applied - withdrawn applied)"
proof (induction b applied rule: noRounding.induct)
  case (1 b)
  show ?case by (simp add: runningBalance64_def deposited_def withdrawn_def)
next
  case (2 b x xs)
  then have "runningBalance64 (Finite (b + x)) xs =
      Finite (b + x + deposited xs - withdrawn xs)" by simp
  with "2.prems" show ?case
    by (simp add: runningBalance64_def deposited_def withdrawn_def fadd.simps)
next
  case (3 b x xs)
  then have "runningBalance64 (Finite (b - x)) xs =
      Finite (b - x + deposited xs - withdrawn xs)" by simp
  with "3.prems" show ?case
    by (simp add: runningBalance64_def deposited_def withdrawn_def fsub_def fadd.simps)
qed simp_all

lemma createAccount64_fresh:
  assumes "username \<noteq> []" and "fullName \<noteq> []" and "password \<noteq> []"
    and "bank64 s username = None"
  shows "createAccount64 hash (username # fullName # password # password # rest) s =
     Some (Done,
       s\<lparr>heap64 := heap64 s @
            [\<lparr>FullName64 = fullName, Username64 = username, Password64 = hash password,
              Balance64 = Finite 1000, LastLogin64 = 0, Transactions64 = []\<rparr>],
         bank64 := (bank64 s)(username \<mapsto> length (heap64 s))\<rparr>,
       rest)"
  using assms by (simp add: createAccount64_def newPassword_match)

lemma login64_at_once:
  assumes "username \<noteq> []" and "password \<noteq> []" and "bank64 s username = Some p"
    and "Password64 (heap64 s ! p) = hash password"
  shows "login64 hash now (username # password # rest) s =
     Some (Done,
       s\<lparr>heap64 := (heap64 s)[p := (heap64 s ! p)\<lparr>LastLogin64 := now\<rparr>],
         currentAccount64 := Some p, previousLastLogin64 := LastLogin64 (heap64 s ! p)\<rparr>,
       rest)"
  using assms by (simp add: login64_def checkPassword_right Let_def)

text \<open>
  C8 as claimed fails: every deposit and withdrawal rounds. Alice opens an account, logs
  in and deposits \<^verbatim>\<open>0.1\<close> and then \<^verbatim>\<open>0.2\<close>: her balance is neither 1000 plus the sum of
  the two amounts, nor what \<^verbatim>\<open>float64\<close> addition gives when the two amounts are added
  first.
\<close>

theorem balance_sum_counterexample:
  "createAccount64 hashDemo
     [''alice'', ''Alice A'', ''pw'', ''pw'', ''alice'', ''pw'', ''0.1'', ''0.2''] emptyStore64 =
     Some (Done,
       \<lparr>heap64 = [(alice64 (Finite 1000) [])\<lparr>LastLogin64 := 0\<rparr>], bank64 = [''alice'' \<mapsto> 0],
        currentAccount64 = None, previousLastLogin64 = 0\<rparr>,
       [''alice'', ''pw'', ''0.1'', ''0.2'']) \<and>
   login64 hashDemo 1 [''alice'', ''pw'', ''0.1'', ''0.2'']
     \<lparr>heap64 = [(alice64 (Finite 1000) [])\<lparr>LastLogin64 := 0\<rparr>], bank64 = [''alice'' \<mapsto> 0],
      currentAccount64 = None, previousLastLogin64 = 0\<rparr> =
     Some (Done, aliceSession64 (Finite 1000) [], [''0.1'', ''0.2'']) \<and>
   cashOps64 parseDemo64 [(Deposit, 2), (Deposit, 3)] [''0.1'', ''0.2'']
     (aliceSession64 (Finite 1000) []) =
     Some ([(Deposit, Finite tenth64), (Deposit, Finite fifth64)],
       aliceSession64 (Finite (8798731850114663 / 2 ^ 43))
         [\<lparr>Time64 = 3, Counterparty64 = [], Amount64 = Finite fifth64,
           ClosingBalance64 = Finite (8798731850114663 / 2 ^ 43),
           Message64 = ''credited via cash deposit'', Type64 = ''C''\<rparr>,
          \<lparr>Time64 = 2, Counterparty64 = [], Amount64 = Finite tenth64,
           ClosingBalance64 = Finite (8796972631510221 / 2 ^ 43),
           Message64 = ''credited via cash deposit'', Type64 = ''C''\<rparr>],
       []) \<and>
   Finite (8798731850114663 / 2 ^ 43) \<noteq>
     Finite (1000 + deposited [(Deposit, Finite tenth64), (Deposit, Finite fifth64)]
                  - withdrawn [(Deposit, Finite tenth64), (Deposit, Finite fifth64)]) \<and>
   Finite (8798731850114663 / 2 ^ 43) \<noteq>
     fadd (Finite 1000) (fadd (Finite tenth64) (Finite fifth64)) \<and>
   round64 (1 / 10) = Finite tenth64 \<and> round64 (2 / 10) = Finite fifth64"
proof -
  have c: "createAccount64 hashDemo
     [''alice'', ''Alice A'', ''pw'', ''pw'', ''alice'', ''pw'', ''0.1'', ''0.2''] emptyStore64 =
     Some (Done,
       \<lparr>heap64 = [(alice64 (Finite 1000) [])\<lparr>LastLogin64 := 0\<rparr>], bank64 = [''alice'' \<mapsto> 0],
        currentAccount64 = None, previousLastLogin64 = 0\<rparr>,
       [''alice'', ''pw'', ''0.1'', ''0.2''])"
    by (simp add: createAccount64_def newPassword.simps emptyStore64_def alice64_def hashDemo_def)
  have l: "login64 hashDemo 1 [''alice'', ''pw'', ''0.1'', ''0.2'']
     \<lparr>heap64 = [(alice64 (Finite 1000) [])\<lparr>LastLogin64 := 0\<rparr>], bank64 = [''alice'' \<mapsto> 0],
      currentAccount64 = None, previousLastLogin64 = 0\<rparr> =
     Some (Done, aliceSession64 (Finite 1000) [], [''0.1'', ''0.2''])"
    by (simp add: login64_def checkPassword.simps alice64_def aliceSession64_def hashDemo_def)
  have r1: "readAmount64 parseDemo64 [''0.1'', ''0.2''] = Some (Finite tenth64, [''0.2''])"
    by (rule readAmount64_valid_line) (simp_all add: parseDemo64_def tenth64_def)
  have r2: "readAmount64 parseDemo64 [''0.2''] = Some (Finite fifth64, [])"
    by (rule readAmount64_valid_line) (simp_all add: parseDemo64_def fifth64_def)
  have o: "cashOps64 parseDemo64 [(Deposit, 2), (Deposit, 3)] [''0.1'', ''0.2'']
     (aliceSession64 (Finite 1000) []) =
     Some ([(Deposit, Finite tenth64), (Deposit, Finite fifth64)],
       aliceSession64 (Finite (8798731850114663 / 2 ^ 43))
         [\<lparr>Time64 = 3, Counterparty64 = [], Amount64 = Finite fifth64,
           ClosingBalance64 = Finite (8798731850114663 / 2 ^ 43),
           Message64 = ''credited via cash deposit'', Type64 = ''C''\<rparr>,
          \<lparr>Time64 = 2, Counterparty64 = [], Amount64 = Finite tenth64,
           ClosingBalance64 = Finite (8796972631510221 / 2 ^ 43),
           Message64 = ''credited via cash deposit'', Type64 = ''C''\<rparr>],
       [])"
    using fadd_tenth_fifth
    by (simp add: r1 r2 depositCash64_def Let_def aliceSession64_def alice64_def fadd_tenth)
  have n1: "Finite (8798731850114663 / 2 ^ 43) \<noteq>
     Finite (1000 + deposited [(Deposit, Finite tenth64), (Deposit, Finite fifth64)]
                  - withdrawn [(Deposit, Finite tenth64), (Deposit, Finite fifth64)])"
    by (simp add: deposited_def withdrawn_def tenth64_def fifth64_def)
  have n2: "Finite (8798731850114663 / 2 ^ 43) \<noteq>
     fadd (Finite 1000) (fadd (Finite tenth64) (Finite fifth64))"
    by (simp add: fadd_regrouped)
  from c l o n1 n2 round64_parse_tenth round64_parse_fifth show ?thesis by blast
qed

text \<open>
  C8, amended. An account is created, its owner logs in and performs any sequence of
  deposits and withdrawals; at each prompt for an amount any lines that \<^verbatim>\<open>readAmount\<close>
  turns down may be typed before the one it accepts. All of it completes, and the
  balance is then what results from the joining bonus of 1000 by adding each amount
  deposited and subtracting each amount withdrawn, one operation at a time in
  \<^verbatim>\<open>float64\<close> arithmetic and in the order of the operations. When no operation on the
  way rounds, this is 1000 plus the amounts deposited minus the amounts withdrawn.
\<close>

theorem balance_after_cash_operations64:
  assumes "username \<noteq> []" and "fullName \<noteq> []" and "password \<noteq> []"
    and "bank64 s0 username = None"
    and "length ops = length typed"
    and "list_all2 (entersAmount ParseFloat) typed amounts"
  shows "\<exists>s1 s2 s3.
     createAccount64 hash
       (username # fullName # password # password # username # password # concat typed @ rest) s0 =
       Some (Done, s1, username # password # concat typed @ rest) \<and>
     login64 hash t (username # password # concat typed @ rest) s1 =
       Some (Done, s2, concat typed @ rest) \<and>
     currentAccount64 s2 = Some (length (heap64 s0)) \<and>
     cashOps64 ParseFloat ops (concat typed @ rest) s2 =
       Some (zip (map fst ops) amounts, s3, rest) \<and>
     Balance64 (heap64 s3 ! length (heap64 s0)) =
       runningBalance64 (Finite 1000) (zip (map fst ops) amounts) \<and>
     (noRounding 1000 (zip (map fst ops) amounts) \<longrightarrow>
        Balance64 (heap64 s3 ! length (heap64 s0)) =
          Finite (1000 + deposited (zip (map fst ops) amounts)
                       - withdrawn (zip (map fst ops) amounts)))"
proof -
  let ?p = "length (heap64 s0)"
  let ?new = "\<lparr>FullName64 = fullName, Username64 = username, Password64 = hash password,
              Balance64 = Finite 1000, LastLogin64 = 0, Transactions64 = []\<rparr>"
  let ?s1 = "s0\<lparr>heap64 := heap64 s0 @ [?new], bank64 := (bank64 s0)(username \<mapsto> ?p)\<rparr>"
  let ?s2 = "?s1\<lparr>heap64 := (heap64 ?s1)[?p := (heap64 ?s1 ! ?p)\<lparr>LastLogin64 := t\<rparr>],
         currentAccount64 := Some ?p, previousLastLogin64 := LastLogin64 (heap64 ?s1 ! ?p)\<rparr>"
  have c: "createAccount64 hash
       (username # fullName # password # password # username # password # concat typed @ rest) s0 =
       Some (Done, ?s1, username # password # concat typed @ rest)"
    by (rule createAccount64_fresh [OF assms(1-4)])
  have l: "login64 hash t (username # password # concat typed @ rest) ?s1 =
       Some (Done, ?s2, concat typed @ rest)"
    by (rule login64_at_once [OF assms(1,3)]) simp_all
  have cur: "currentAccount64 ?s2 = Some ?p" and len: "?p < length (heap64 ?s2)"
    and bal: "Balance64 (heap64 ?s2 ! ?p) = Finite 1000"
    by simp_all
  from cashOps64_run [OF assms(6,5) cur len, of rest]
  obtain s3 where o: "cashOps64 ParseFloat ops (concat typed @ rest) ?s2 =
       Some (zip (map fst ops) amounts, s3, rest)"
    and b: "Balance64 (heap64 s3 ! ?p) =
       runningBalance64 (Balance64 (heap64 ?s2 ! ?p)) (zip (map fst ops) amounts)"
    by blast
  from b bal have b': "Balance64 (heap64 s3 ! ?p) =
       runningBalance64 (Finite 1000) (zip (map fst ops) amounts)" by simp
  with runningBalance64_exact [of 1000 "zip (map fst ops) amounts"]
  have ex: "noRounding 1000 (zip (map fst ops) amounts) \<longrightarrow>
        Balance64 (heap64 s3 ! ?p) =
          Finite (1000 + deposited (zip (map fst ops) amounts)
                       - withdrawn (zip (map fst ops) amounts))" by simp
  from c l cur o b' ex show ?thesis by blast
qed

theorem balance_after_cash_operations64_witness:
  "''alice'' \<noteq> [] \<and> ''Alice A'' \<noteq> [] \<and> ''pw'' \<noteq> [] \<and> bank64 emptyStore64 ''alice'' = None \<and>
   length [(Deposit, 2 :: time), (Withdraw, 3)] = length [[[], ''abc'', ''200''], [''1500'']] \<and>
   list_all2 (entersAmount parseDemo64) [[[], ''abc'', ''200''], [''1500'']]
     [Finite 200, Finite 1500] \<and>
   noRounding 1000 [(Deposit, Finite 200), (Withdraw, Finite 1500)] \<and>
   (\<exists>s1 s2 s3.
     createAccount64 hashDemo
       [''alice'', ''Alice A'', ''pw'', ''pw'', ''alice'', ''pw'', [], ''abc'', ''200'', ''1500'']
       emptyStore64 =
       Some (Done, s1, [''alice'', ''pw'', [], ''abc'', ''200'', ''1500'']) \<and>
     login64 hashDemo 1 [''alice'', ''pw'', [], ''abc'', ''200'', ''1500''] s1 =
       Some (Done, s2, [[], ''abc'', ''200'', ''1500'']) \<and>
     cashOps64 parseDemo64 [(Deposit, 2), (Withdraw, 3)] [[], ''abc'', ''200'', ''1500''] s2 =
       Some ([(Deposit, Finite 200), (Withdraw, Finite 1500)], s3, []) \<and>
     Balance64 (heap64 s3 ! 0) =
       runningBalance64 (Finite 1000) [(Deposit, Finite 200), (Withdraw, Finite 1500)] \<and>
     Balance64 (heap64 s3 ! 0) = Finite (- 300))"
proof -
  have h1: "''alice'' \<noteq> []" and h2: "''Alice A'' \<noteq> []" and h3: "''pw'' \<noteq> []"
    and h4: "bank64 emptyStore64 ''alice'' = None"
    and h5: "length [(Deposit, 2 :: time), (Withdraw, 3)] =
      length [[[], ''abc'', ''200''], [''1500'']]"
    by (simp_all add: emptyStore64_def)
  have h6: "list_all2 (entersAmount parseDemo64) [[[], ''abc'', ''200''], [''1500'']]
     [Finite 200, Finite 1500]"
    by (simp add: parseDemo64_def rejectedLine_def acceptedLine_def)
  have n: "noRounding 1000 [(Deposit, Finite 200), (Withdraw, Finite 1500)]"
    by (simp add: round64_1200 round64_minus_300)
  have v: "(1000 :: rat) + deposited [(Deposit, Finite 200), (Withdraw, Finite 1500)]
       - withdrawn [(Deposit, Finite 200), (Withdraw, Finite 1500)] = - 300"
    by (simp add: deposited_def withdrawn_def)
  have z: "zip (map fst [(Deposit, 2 :: time), (Withdraw, 3)]) [Finite 200, Finite 1500] =
      [(Deposit, Finite 200), (Withdraw, Finite 1500)]"
    by simp
  have e: "length (heap64 emptyStore64) = 0"
    by (simp add: emptyStore64_def)
  have k: "concat [[[], ''abc'', ''200''], [''1500'']] @ [] = [[], ''abc'', ''200'', ''1500'']"
    by simp
  from balance_after_cash_operations64
    [OF h1 h2 h3 h4 h5 h6, of hashDemo "[]" 1, unfolded z e k]
  obtain s1 s2 s3 where
    c: "createAccount64 hashDemo
       [''alice'', ''Alice A'', ''pw'', ''pw'', ''alice'', ''pw'', [], ''abc'', ''200'', ''1500'']
       emptyStore64 =
       Some (Done, s1, [''alice'', ''pw'', [], ''abc'', ''200'', ''1500''])"
    and l: "login64 hashDemo 1 [''alice'', ''pw'', [], ''abc'', ''200'', ''1500''] s1 =
       Some (Done, s2, [[], ''abc'', ''200'', ''1500''])"
    and o: "cashOps64 parseDemo64 [(Deposit, 2), (Withdraw, 3)]
         [[], ''abc'', ''200'', ''1500''] s2 =
       Some ([(Deposit, Finite 200), (Withdraw, Finite 1500)], s3, [])"
    and b: "Balance64 (heap64 s3 ! 0) =
       runningBalance64 (Finite 1000) [(Deposit, Finite 200), (Withdraw, Finite 1500)]"
    and x: "noRounding 1000 [(Deposit, Finite 200), (Withdraw, Finite 1500)] \<longrightarrow>
        Balance64 (heap64 s3 ! 0) =
          Finite (1000 + deposited [(Deposit, Finite 200), (Withdraw, Finite 1500)]
                       - withdrawn [(Deposit, Finite 200), (Withdraw, Finite 1500)])"
    by blast
  from x n v have "Balance64 (heap64 s3 ! 0) = Finite (- 300)" by simp
  with c l o b have "\<exists>s1 s2 s3.
     createAccount64 hashDemo
       [''alice'', ''Alice A'', ''pw'', ''pw'', ''alice'', ''pw'', [], ''abc'', ''200'', ''1500'']
       emptyStore64 =
       Some (Done, s1, [''alice'', ''pw'', [], ''abc'', ''200'', ''1500'']) \<and>
     login64 hashDemo 1 [''alice'', ''pw'', [], ''abc'', ''200'', ''1500''] s1 =
       Some (Done, s2, [[], ''abc'', ''200'', ''1500'']) \<and>
     cashOps64 parseDemo64 [(Deposit, 2), (Withdraw, 3)] [[], ''abc'', ''200'', ''1500''] s2 =
       Some ([(Deposit, Finite 200), (Withdraw, Finite 1500)], s3, []) \<and>
     Balance64 (heap64 s3 ! 0) =
       runningBalance64 (Finite 1000) [(Deposit, Finite 200), (Withdraw, Finite 1500)] \<and>
     Balance64 (heap64 s3 ! 0) = Finite (- 300)"
    by blast
  with h1 h2 h3 h4 h5 h6 n show ?thesis by blast
qed


end
